theory Spec2Isabelle
  imports Complex_Main "HOL-Library.AList"
begin

unbundle bit_operations_syntax

section \<open>Python values\<close>

text \<open>
  Modelled from the spec: the enumeration \<^verbatim>\<open>starfish.types.Indices\<close>, imported by the
  module and declared elsewhere in the package. It has the dimension identifiers ROUND,
  CH and Z that a tile's coordinate-index mapping is keyed by.
\<close>

datatype Indices = ROUND | CH | Z

text \<open>
  The class \<^verbatim>\<open>TileMetadataKey\<close>: three private attributes set by the constructor.
  Python integers are unbounded, so they are \<^typ>\<open>int\<close>.
\<close>

record TileMetadataKey =
  priv_round :: int
  priv_ch :: int
  priv_z :: int

text \<open>
  The objects a caller can hand to \<^verbatim>\<open>__eq__\<close> or \<^verbatim>\<open>__getitem__\<close>: an instance of
  \<^verbatim>\<open>TileMetadataKey\<close>, or a built-in object (None, an integer, a string, a member of
  \<^verbatim>\<open>Indices\<close>, a tuple, a list).
\<close>

datatype pyobj =
    KeyObj TileMetadataKey
  | NoneObj
  | IntObj int
  | StrObj string
  | EnumObj Indices
  | TupleObj "pyobj list"
  | ListObj "pyobj list"

text \<open>The exceptions the modelled code can raise. A \<^verbatim>\<open>KeyError\<close> carries the missing key.\<close>

datatype py_error = KeyError pyobj | TypeError | AttributeError

section \<open>TileMetadataKey\<close>

definition TileMetadataKey_init :: "int \<Rightarrow> int \<Rightarrow> int \<Rightarrow> TileMetadataKey" where
  "TileMetadataKey_init r c z0 = \<lparr>priv_round = r, priv_ch = c, priv_z = z0\<rparr>"

text \<open>The read-only properties \<^verbatim>\<open>round\<close>, \<^verbatim>\<open>ch\<close> and \<^verbatim>\<open>z\<close> of a key.\<close>

definition key_round :: "TileMetadataKey \<Rightarrow> int" where
  "key_round self = priv_round self"

definition key_ch :: "TileMetadataKey \<Rightarrow> int" where
  "key_ch self = priv_ch self"

definition key_z :: "TileMetadataKey \<Rightarrow> int" where
  "key_z self = priv_z self"

text \<open>\<^verbatim>\<open>isinstance(other, TileMetadataKey)\<close>.\<close>

fun isinstance_TileMetadataKey :: "pyobj \<Rightarrow> bool" where
  "isinstance_TileMetadataKey (KeyObj k) = True"
| "isinstance_TileMetadataKey other = False"

text \<open>
  Attribute access \<^verbatim>\<open>other.round\<close>, \<^verbatim>\<open>other.ch\<close>, \<^verbatim>\<open>other.z\<close> on an arbitrary object:
  only a key has these properties, any built-in object raises \<^verbatim>\<open>AttributeError\<close>.
\<close>

fun getattr_round :: "pyobj \<Rightarrow> py_error + int" where
  "getattr_round (KeyObj k) = Inr (key_round k)"
| "getattr_round other = Inl AttributeError"

fun getattr_ch :: "pyobj \<Rightarrow> py_error + int" where
  "getattr_ch (KeyObj k) = Inr (key_ch k)"
| "getattr_ch other = Inl AttributeError"

fun getattr_z :: "pyobj \<Rightarrow> py_error + int" where
  "getattr_z (KeyObj k) = Inr (key_z k)"
| "getattr_z other = Inl AttributeError"

text \<open>
  \<^verbatim>\<open>__eq__\<close>: the \<^verbatim>\<open>isinstance\<close> guard first, then the three comparisons joined by
  \<^verbatim>\<open>and\<close>, which evaluates its right operand only when the left one is true.
\<close>

definition key_eq :: "TileMetadataKey \<Rightarrow> pyobj \<Rightarrow> py_error + bool" where
  "key_eq self other =
     (if \<not> isinstance_TileMetadataKey other then Inr False
      else
        (case getattr_round other of
           Inl e \<Rightarrow> Inl e
         | Inr r \<Rightarrow>
             if priv_round self \<noteq> r then Inr False
             else
               (case getattr_ch other of
                  Inl e \<Rightarrow> Inl e
                | Inr c \<Rightarrow>
                    if priv_ch self \<noteq> c then Inr False
                    else
                      (case getattr_z other of
                         Inl e \<Rightarrow> Inl e
                       | Inr z' \<Rightarrow> Inr (priv_z self = z')))))"

text \<open>\<^verbatim>\<open>__hash__\<close>: the bitwise exclusive or of the three attributes.\<close>

definition key_hash :: "TileMetadataKey \<Rightarrow> int" where
  "key_hash self = priv_round self XOR priv_ch self XOR priv_z self"

section \<open>The dictionary of the registry\<close>

text \<open>
  Whether the interpreter can hash an object: a list cannot be hashed, a tuple can when all
  its elements can, every other object at hand can.
\<close>

fun hashable :: "pyobj \<Rightarrow> bool" where
  "hashable (ListObj xs) = False"
| "hashable (TupleObj xs) = list_all hashable xs"
| "hashable x = True"

text \<open>
  \<^verbatim>\<open>hash(x)\<close> as a dictionary calls it. A key answers with its \<^verbatim>\<open>__hash__\<close>; an unhashable
  object raises \<^verbatim>\<open>TypeError\<close>; the hash of any other built-in object is the interpreter's,
  taken as the parameter \<open>builtin_hash\<close>. The interpreter further reduces the integer
  \<^verbatim>\<open>__hash__\<close> returns to a machine word; that reduction is a function of the integer,
  a dictionary compares keys with \<^verbatim>\<open>__eq__\<close> whenever hashes agree, and so it changes
  no result of a lookup or a store and is left out.
\<close>

definition py_hash :: "(pyobj \<Rightarrow> int) \<Rightarrow> pyobj \<Rightarrow> py_error + int" where
  "py_hash builtin_hash x =
     (case x of
        KeyObj k \<Rightarrow> Inr (key_hash k)
      | _ \<Rightarrow> if hashable x then Inr (builtin_hash x) else Inl TypeError)"

text \<open>
  A metadata payload (\<^verbatim>\<open>tile.extras\<close>, \<^verbatim>\<open>tileset.extras\<close>) is a Python object handled by
  reference: the code stores and returns the reference and never looks inside. A reference
  is an address; two references are the same object exactly when the addresses are equal.
\<close>

type_synonym addr = nat

text \<open>
  The dictionary \<^verbatim>\<open>tile_extras\<close>: its entries in insertion order. Its stored keys are
  always instances of \<^verbatim>\<open>TileMetadataKey\<close>, since line 58 is the only store.
\<close>

type_synonym pydict = "(TileMetadataKey \<times> addr) list"

text \<open>
  The search a dictionary makes for an object \<open>x\<close> of hash \<open>h\<close>: an entry matches when its
  key has the same hash and its \<^verbatim>\<open>__eq__\<close> accepts \<open>x\<close>; an exception of \<^verbatim>\<open>__eq__\<close> goes
  to the caller.
\<close>

fun dict_lookup :: "pydict \<Rightarrow> int \<Rightarrow> pyobj \<Rightarrow> py_error + addr option" where
  "dict_lookup [] h x = Inr None"
| "dict_lookup ((k, v) # es) h x =
     (if key_hash k = h then
        (case key_eq k x of
           Inl e \<Rightarrow> Inl e
         | Inr b \<Rightarrow> if b then Inr (Some v) else dict_lookup es h x)
      else dict_lookup es h x)"

text \<open>\<^verbatim>\<open>d[x]\<close>: hash the object, search, raise \<^verbatim>\<open>KeyError(x)\<close> when nothing matches.\<close>

definition dict_getitem :: "(pyobj \<Rightarrow> int) \<Rightarrow> pydict \<Rightarrow> pyobj \<Rightarrow> py_error + addr" where
  "dict_getitem builtin_hash d x =
     (case py_hash builtin_hash x of
        Inl e \<Rightarrow> Inl e
      | Inr h \<Rightarrow>
          (case dict_lookup d h x of
             Inl e \<Rightarrow> Inl e
           | Inr None \<Rightarrow> Inl (KeyError x)
           | Inr (Some v) \<Rightarrow> Inr v))"

text \<open>
  \<^verbatim>\<open>d[k] = v\<close> for a key \<open>k\<close> of hash \<open>h\<close>: the value of a matching entry is replaced where
  the entry stands (the stored key stays), otherwise a new entry is added at the end.
\<close>

fun dict_store :: "pydict \<Rightarrow> int \<Rightarrow> TileMetadataKey \<Rightarrow> addr \<Rightarrow> py_error + pydict" where
  "dict_store [] h k v = Inr [(k, v)]"
| "dict_store ((k', v') # es) h k v =
     (if key_hash k' = h then
        (case key_eq k' (KeyObj k) of
           Inl e \<Rightarrow> Inl e
         | Inr b \<Rightarrow>
             if b then Inr ((k', v) # es)
             else
               (case dict_store es h k v of
                  Inl e \<Rightarrow> Inl e
                | Inr es' \<Rightarrow> Inr ((k', v') # es')))
      else
        (case dict_store es h k v of
           Inl e \<Rightarrow> Inl e
         | Inr es' \<Rightarrow> Inr ((k', v') # es')))"

definition dict_setitem :: "pydict \<Rightarrow> TileMetadataKey \<Rightarrow> addr \<Rightarrow> py_error + pydict" where
  "dict_setitem d k v = dict_store d (key_hash k) k v"

text \<open>\<^verbatim>\<open>d.keys()\<close>: the stored keys, in insertion order.\<close>

definition dict_keys :: "pydict \<Rightarrow> TileMetadataKey list" where
  "dict_keys d = map fst d"

section \<open>TileSetMetadata\<close>

text \<open>
  Modelled from the spec: a tile of \<^verbatim>\<open>slicedimage\<close>, imported by the module. A tile exposes
  a coordinate-index mapping keyed by \<^typ>\<open>Indices\<close> (\<^verbatim>\<open>tile.indices\<close>) and a metadata
  payload (\<^verbatim>\<open>tile.extras\<close>).
\<close>

record Tile =
  indices :: "Indices \<rightharpoonup> int"
  extras :: addr

text \<open>
  Modelled from the spec: \<^verbatim>\<open>slicedimage.TileSet\<close>, imported by the module. A tile
  collection exposes its tiles in iteration order (\<^verbatim>\<open>tileset.tiles()\<close>) and a
  collection-level metadata payload (\<^verbatim>\<open>tileset.extras\<close>).
\<close>

record TileSet =
  tiles :: "Tile list"
  tileset_extras :: addr

record TileSetMetadata =
  tile_extras :: pydict
  priv_extras :: addr

text \<open>
  Lines 54 to 58, the key of one tile: \<^verbatim>\<open>tile.indices[Indices.ROUND]\<close> and
  \<^verbatim>\<open>tile.indices[Indices.CH]\<close> raise \<^verbatim>\<open>KeyError\<close> on a missing index, in this order;
  \<^verbatim>\<open>tile.indices.get(Indices.Z, 0)\<close> gives 0 on a missing one.
\<close>

definition tile_key :: "Tile \<Rightarrow> py_error + TileMetadataKey" where
  "tile_key tile =
     (case indices tile ROUND of
        None \<Rightarrow> Inl (KeyError (EnumObj ROUND))
      | Some r \<Rightarrow>
          (case indices tile CH of
             None \<Rightarrow> Inl (KeyError (EnumObj CH))
           | Some c \<Rightarrow>
               let z0 = (case indices tile Z of None \<Rightarrow> 0 | Some zv \<Rightarrow> zv)
               in Inr (TileMetadataKey_init r c z0)))"

text \<open>
  The loop of \<^verbatim>\<open>__init__\<close> over \<^verbatim>\<open>tileset.tiles()\<close>, with the dictionary built so far.
  An exception leaves the loop and the constructor; the dictionary built so far is lost.
\<close>

fun init_loop :: "pydict \<Rightarrow> Tile list \<Rightarrow> py_error + pydict" where
  "init_loop d [] = Inr d"
| "init_loop d (tile # rest) =
     (case tile_key tile of
        Inl e \<Rightarrow> Inl e
      | Inr k \<Rightarrow>
          (case dict_setitem d k (extras tile) of
             Inl e \<Rightarrow> Inl e
           | Inr d' \<Rightarrow> init_loop d' rest))"

definition TileSetMetadata_init :: "TileSet \<Rightarrow> py_error + TileSetMetadata" where
  "TileSetMetadata_init tileset =
     (case init_loop [] (tiles tileset) of
        Inl e \<Rightarrow> Inl e
      | Inr d \<Rightarrow> Inr \<lparr>tile_extras = d, priv_extras = tileset_extras tileset\<rparr>)"

text \<open>\<^verbatim>\<open>__getitem__\<close>, \<^verbatim>\<open>keys\<close> and the property \<^verbatim>\<open>extras\<close>.\<close>

definition TileSetMetadata_getitem ::
  "(pyobj \<Rightarrow> int) \<Rightarrow> TileSetMetadata \<Rightarrow> pyobj \<Rightarrow> py_error + addr" where
  "TileSetMetadata_getitem builtin_hash self tilekey =
     dict_getitem builtin_hash (tile_extras self) tilekey"

definition TileSetMetadata_keys :: "TileSetMetadata \<Rightarrow> TileMetadataKey list" where
  "TileSetMetadata_keys self = dict_keys (tile_extras self)"

definition TileSetMetadata_extras :: "TileSetMetadata \<Rightarrow> addr" where
  "TileSetMetadata_extras self = priv_extras self"

section \<open>Persistence of the intensity table\<close>

text \<open>
  \<^verbatim>\<open>IntensityTable.save\<close>, \<^verbatim>\<open>IntensityTable.load\<close> and \<^verbatim>\<open>equals\<close> are called by the test
  \<^verbatim>\<open>test_intensity_table_serialization\<close> and defined elsewhere in the package. The
  definitions of this section follow the specification's words instead.
\<close>

text \<open>
  Modelled from the spec: the missing array element type. The values are floating-point
  numbers of a recorded precision; a stored value is copied, never recomputed, so a value
  is the number it denotes.
\<close>

datatype dtype = Float32 | Float64

text \<open>
  Modelled from the spec: the missing coordinate label array, with its name, the axes it
  is attached to and its values.
\<close>

record coord_array =
  coord_name :: string
  coord_dims :: "string list"
  coord_values :: "real list"

text \<open>
  Modelled from the spec: the missing labeled multidimensional dataset, a numeric array
  (shape, element type, values in row-major order) with named axes, coordinate label
  arrays and attributes.
\<close>

record dataset =
  ds_dims :: "string list"
  ds_shape :: "nat list"
  ds_dtype :: dtype
  ds_values :: "real list"
  ds_coords :: "coord_array list"
  ds_attrs :: "(string \<times> string) list"

text \<open>
  Modelled from the spec: the missing self-describing container, holding named axes,
  coordinate arrays, the array payload and attributes.
\<close>

record container =
  c_dims :: "string list"
  c_shape :: "nat list"
  c_dtype :: dtype
  c_payload :: "real list"
  c_coords :: "coord_array list"
  c_attrs :: "(string \<times> string) list"

text \<open>
  Modelled from the spec: what a path of the missing file system holds, a container or a
  file that is not a valid container.
\<close>

datatype stored_file = Container container | Unreadable

text \<open>
  Modelled from the spec: the missing file system, the file at each path and whether a
  path can be written.
\<close>

record filesystem =
  files :: "string \<rightharpoonup> stored_file"
  writable :: "string \<Rightarrow> bool"

text \<open>
  Modelled from the spec: the missing errors of \<^verbatim>\<open>save\<close> and \<^verbatim>\<open>load\<close>, an I/O failure, a
  path that is not found and a corrupt or unreadable container.
\<close>

datatype io_error = IOFailure | NotFound | CorruptContainer

text \<open>
  Modelled from the spec: the missing \<^verbatim>\<open>save\<close>, which writes the dataset's array, all
  coordinate label arrays, all axis names and all attributes to a single file at the
  path, overwriting it if it exists, and fails with an I/O error if the path is not
  writable.
\<close>

definition save :: "filesystem \<Rightarrow> dataset \<Rightarrow> string \<Rightarrow> io_error + filesystem" where
  "save fs d path =
     (if \<not> writable fs path then Inl IOFailure
      else
        Inr (fs\<lparr>files := (files fs)(path \<mapsto>
          Container \<lparr>c_dims = ds_dims d, c_shape = ds_shape d, c_dtype = ds_dtype d,
            c_payload = ds_values d, c_coords = ds_coords d, c_attrs = ds_attrs d\<rparr>)\<rparr>))"

text \<open>
  Modelled from the spec: the missing \<^verbatim>\<open>load\<close>, which reconstructs a dataset from the
  file and fails when the path is missing, when the file is not a valid container, or
  when its internal structure does not match the expected shape.
\<close>

definition load :: "filesystem \<Rightarrow> string \<Rightarrow> io_error + dataset" where
  "load fs path =
     (case files fs path of
        None \<Rightarrow> Inl NotFound
      | Some Unreadable \<Rightarrow> Inl CorruptContainer
      | Some (Container c) \<Rightarrow>
          if length (c_payload c) \<noteq> prod_list (c_shape c) then Inl CorruptContainer
          else
            Inr \<lparr>ds_dims = c_dims c, ds_shape = c_shape c, ds_dtype = c_dtype c,
              ds_values = c_payload c, ds_coords = c_coords c, ds_attrs = c_attrs c\<rparr>)"

text \<open>
  Modelled from the spec: the missing equivalence of two datasets, which checks identical
  array shape and element type, identical values at every index, an identical set of
  coordinate label arrays (names, dimensions, values) and identical attributes.
\<close>

definition equals :: "dataset \<Rightarrow> dataset \<Rightarrow> bool" where
  "equals a b \<longleftrightarrow>
     ds_shape a = ds_shape b \<and> ds_dtype a = ds_dtype b \<and> ds_values a = ds_values b \<and>
     set (ds_coords a) = set (ds_coords b) \<and> ds_attrs a = ds_attrs b"

section \<open>Properties of the key\<close>

lemma key_eq_KeyObj: "key_eq k (KeyObj k') = Inr (k = k')"
  by (auto simp: key_eq_def key_round_def key_ch_def key_z_def)

lemma key_eq_other: "\<not> isinstance_TileMetadataKey x \<Longrightarrow> key_eq k x = Inr False"
  by (simp add: key_eq_def)

lemma key_eq_total: "key_eq k x = Inr (x = KeyObj k)"
  by (cases x) (auto simp: key_eq_KeyObj key_eq_other)

section \<open>Properties of the dictionary and of the construction loop\<close>

text \<open>
  On keys, the store is the update of an association list and the search is its lookup;
  no built-in object ever matches an entry.
\<close>

lemma dict_store_update: "dict_store d (key_hash k) k v = Inr (AList.update k v d)"
  by (induction d) (auto simp: key_eq_KeyObj)

lemma dict_setitem_update: "dict_setitem d k v = Inr (AList.update k v d)"
  by (simp add: dict_setitem_def dict_store_update)

lemma dict_lookup_key: "dict_lookup d (key_hash k) (KeyObj k) = Inr (map_of d k)"
  by (induction d) (auto simp: key_eq_KeyObj)

lemma dict_lookup_other: "\<not> isinstance_TileMetadataKey x \<Longrightarrow> dict_lookup d h x = Inr None"
  by (induction d) (auto simp: key_eq_other)

lemma dict_getitem_key:
  "dict_getitem bh d (KeyObj k) =
     (case map_of d k of None \<Rightarrow> Inl (KeyError (KeyObj k)) | Some v \<Rightarrow> Inr v)"
  by (simp add: dict_getitem_def py_hash_def dict_lookup_key)

lemma dict_getitem_other:
  "\<not> isinstance_TileMetadataKey x \<Longrightarrow>
   dict_getitem bh d x = (if hashable x then Inl (KeyError x) else Inl TypeError)"
  by (cases x) (simp_all add: dict_getitem_def py_hash_def dict_lookup_other)

lemma init_loop_step:
  "init_loop d (t # ts) =
     (case tile_key t of Inl e \<Rightarrow> Inl e | Inr k \<Rightarrow> init_loop (AList.update k (extras t) d) ts)"
  by (simp add: dict_setitem_update split: sum.splits)

lemma init_loop_append:
  "init_loop d (xs @ ys) = (case init_loop d xs of Inl e \<Rightarrow> Inl e | Inr d' \<Rightarrow> init_loop d' ys)"
  by (induction xs arbitrary: d) (auto simp: init_loop_step simp del: init_loop.simps(2) split: sum.splits)

lemma init_loop_ok_iff:
  "(\<exists>d'. init_loop d ts = Inr d') \<longleftrightarrow> (\<forall>t\<in>set ts. \<exists>k. tile_key t = Inr k)"
  by (induction ts arbitrary: d) (auto simp: init_loop_step simp del: init_loop.simps(2) split: sum.splits)

lemma init_loop_map_of_other:
  "init_loop d ts = Inr d' \<Longrightarrow> \<forall>t\<in>set ts. tile_key t \<noteq> Inr k \<Longrightarrow> map_of d' k = map_of d k"
  by (induction ts arbitrary: d) (auto simp: init_loop_step update_conv' simp del: init_loop.simps(2) split: sum.splits)

lemma init_loop_keys:
  "init_loop d ts = Inr d' \<Longrightarrow> fst ` set d' = fst ` set d \<union> {k. \<exists>t\<in>set ts. tile_key t = Inr k}"
  by (induction ts arbitrary: d) (auto simp: init_loop_step dom_update simp del: init_loop.simps(2) split: sum.splits)

lemma init_loop_distinct:
  "init_loop d ts = Inr d' \<Longrightarrow> distinct (map fst d) \<Longrightarrow> distinct (map fst d')"
  by (induction ts arbitrary: d) (auto simp: init_loop_step distinct_update simp del: init_loop.simps(2) split: sum.splits)

lemma length_update_fresh:
  "k \<notin> fst ` set d \<Longrightarrow> length (AList.update k v d) = Suc (length d)"
  by (induction d) auto

lemma init_loop_length:
  "init_loop d ts = Inr d' \<Longrightarrow> distinct (map tile_key ts) \<Longrightarrow>
   \<forall>t\<in>set ts. \<forall>k. tile_key t = Inr k \<longrightarrow> k \<notin> fst ` set d \<Longrightarrow>
   length d' = length d + length ts"
proof (induction ts arbitrary: d)
  case Nil
  then show ?case by simp
next
  case (Cons t ts)
  from Cons.prems(1) obtain k where k: "tile_key t = Inr k"
    and rest: "init_loop (AList.update k (extras t) d) ts = Inr d'"
    by (auto simp: init_loop_step simp del: init_loop.simps(2) split: sum.splits)
  have knew: "k \<notin> fst ` set d" using Cons.prems(3) k by simp
  have d1: "distinct (map tile_key ts)" using Cons.prems(2) by simp
  have tnot: "tile_key t \<notin> set (map tile_key ts)" using Cons.prems(2) by simp
  have fresh: "\<forall>u\<in>set ts. \<forall>k'. tile_key u = Inr k' \<longrightarrow> k' \<notin> fst ` set (AList.update k (extras t) d)"
  proof (intro ballI allI impI)
    fix u k' assume u: "u \<in> set ts" and uk: "tile_key u = Inr k'"
    have "k' \<noteq> k" using tnot u uk k by force
    moreover have "k' \<notin> fst ` set d" using Cons.prems(3) u uk by simp
    ultimately show "k' \<notin> fst ` set (AList.update k (extras t) d)"
      by (simp add: dom_update)
  qed
  have "length d' = length (AList.update k (extras t) d) + length ts"
    by (rule Cons.IH [OF rest d1 fresh])
  then show ?case using knew by (simp add: length_update_fresh)
qed


lemma init_loop_error:
  "init_loop d ts = Inl e \<Longrightarrow> \<exists>t\<in>set ts. tile_key t = Inl e"
  by (induction ts arbitrary: d) (auto simp: init_loop_step simp del: init_loop.simps(2) split: sum.splits)

lemma tile_key_error:
  "tile_key t = Inl e \<Longrightarrow> e = KeyError (EnumObj ROUND) \<or> e = KeyError (EnumObj CH)"
  by (auto simp: tile_key_def Let_def split: option.splits)

lemma tile_key_ok_iff:
  "(\<exists>k. tile_key t = Inr k) \<longleftrightarrow> indices t ROUND \<noteq> None \<and> indices t CH \<noteq> None"
  by (auto simp: tile_key_def Let_def split: option.splits)

lemma init_Inr:
  "TileSetMetadata_init ts = Inr reg \<longleftrightarrow>
     init_loop [] (tiles ts) = Inr (tile_extras reg) \<and> priv_extras reg = tileset_extras ts"
  by (auto simp: TileSetMetadata_init_def split: sum.splits)

lemma init_Inl:
  "TileSetMetadata_init ts = Inl e \<longleftrightarrow> init_loop [] (tiles ts) = Inl e"
  by (auto simp: TileSetMetadata_init_def split: sum.splits)

lemma init_loop_last_write:
  assumes "init_loop d (pre @ t # post) = Inr d'" and "tile_key t = Inr k"
    and "\<forall>u\<in>set post. tile_key u \<noteq> Inr k"
  shows "map_of d' k = Some (extras t)"
proof -
  from assms(1) obtain d1 where d1: "init_loop d pre = Inr d1"
    and r: "init_loop d1 (t # post) = Inr d'"
    by (auto simp: init_loop_append split: sum.splits)
  from r assms(2) have "init_loop (AList.update k (extras t) d1) post = Inr d'"
    by (simp add: init_loop_step del: init_loop.simps(2))
  then have "map_of d' k = map_of (AList.update k (extras t) d1) k"
    using assms(3) by (rule init_loop_map_of_other)
  then show ?thesis by (simp add: update_conv')
qed

section \<open>Claims about the key\<close>

text \<open>
  Claim C2. Two keys built from the same round, channel and z compare equal under
  \<^verbatim>\<open>__eq__\<close> and have the same \<^verbatim>\<open>__hash__\<close>; comparing a key with an object that is
  not an instance of the key class returns False and raises nothing.
\<close>

theorem key_equality_hash_law:
  "(priv_round a = priv_round b \<and> priv_ch a = priv_ch b \<and> priv_z a = priv_z b \<longrightarrow>
      key_eq a (KeyObj b) = Inr True \<and> key_hash a = key_hash b) \<and>
   (\<not> isinstance_TileMetadataKey other \<longrightarrow> key_eq a other = Inr False)"
  by (simp add: key_eq_KeyObj key_eq_other key_hash_def)

theorem key_equality_hash_law_witness:
  "key_eq (TileMetadataKey_init 1 2 3) (KeyObj (TileMetadataKey_init 1 2 3)) = Inr True \<and>
   key_hash (TileMetadataKey_init 1 2 3) = 0 \<and>
   key_eq (TileMetadataKey_init 1 2 3) (TupleObj [IntObj 1, IntObj 2, IntObj 3]) = Inr False"
  using key_equality_hash_law [of "TileMetadataKey_init 1 2 3" "TileMetadataKey_init 1 2 3"
      "TupleObj [IntObj 1, IntObj 2, IntObj 3]"]
  by (simp add: TileMetadataKey_init_def key_hash_def)

text \<open>
  Claim C9. The value \<^verbatim>\<open>__hash__\<close> returns for the key of round \<open>r\<close>, channel \<open>c\<close> and z
  \<open>z0\<close> is \<open>r XOR c XOR z0\<close>. Hence the keys of every rearrangement of the three fields
  have the same hash; the keys (1, 0, 0) and (0, 1, 0) are unequal and collide.
\<close>

theorem key_hash_is_xor:
  "key_hash (TileMetadataKey_init r c z0) = r XOR c XOR z0 \<and>
   key_hash (TileMetadataKey_init r z0 c) = key_hash (TileMetadataKey_init r c z0) \<and>
   key_hash (TileMetadataKey_init c r z0) = key_hash (TileMetadataKey_init r c z0) \<and>
   key_hash (TileMetadataKey_init c z0 r) = key_hash (TileMetadataKey_init r c z0) \<and>
   key_hash (TileMetadataKey_init z0 r c) = key_hash (TileMetadataKey_init r c z0) \<and>
   key_hash (TileMetadataKey_init z0 c r) = key_hash (TileMetadataKey_init r c z0) \<and>
   key_eq (TileMetadataKey_init 1 0 0) (KeyObj (TileMetadataKey_init 0 1 0)) = Inr False \<and>
   key_hash (TileMetadataKey_init 1 0 0) = key_hash (TileMetadataKey_init 0 1 0)"
  by (simp add: key_hash_def TileMetadataKey_init_def key_eq_KeyObj ac_simps)

section \<open>Claims about the registry\<close>

text \<open>
  Claim C3. If some tile of the collection lacks the round index or the channel index,
  the constructor raises \<^verbatim>\<open>KeyError\<close> for that index and returns no registry, whatever
  it had stored before reaching the tile. A registry that is returned has an entry for
  the key of every tile of the collection.
\<close>

theorem fail_fast_construction:
  "(t \<in> set (tiles ts) \<and> (indices t ROUND = None \<or> indices t CH = None) \<longrightarrow>
      (\<exists>e. TileSetMetadata_init ts = Inl e \<and>
           (e = KeyError (EnumObj ROUND) \<or> e = KeyError (EnumObj CH)))) \<and>
   (TileSetMetadata_init ts = Inr reg \<longrightarrow>
      (\<forall>u\<in>set (tiles ts). \<exists>k. tile_key u = Inr k \<and> k \<in> set (TileSetMetadata_keys reg)))"
proof (intro conjI impI)
  assume a: "t \<in> set (tiles ts) \<and> (indices t ROUND = None \<or> indices t CH = None)"
  then have "\<not> (\<exists>k. tile_key t = Inr k)"
    unfolding tile_key_ok_iff by auto
  with a have "\<not> (\<exists>d'. init_loop [] (tiles ts) = Inr d')"
    unfolding init_loop_ok_iff by blast
  then obtain e where e: "init_loop [] (tiles ts) = Inl e"
    by (cases "init_loop [] (tiles ts)") auto
  then obtain u where "u \<in> set (tiles ts)" "tile_key u = Inl e"
    by (blast dest: init_loop_error)
  then have "e = KeyError (EnumObj ROUND) \<or> e = KeyError (EnumObj CH)"
    by (blast dest: tile_key_error)
  with e show "\<exists>e. TileSetMetadata_init ts = Inl e \<and>
      (e = KeyError (EnumObj ROUND) \<or> e = KeyError (EnumObj CH))"
    by (simp add: init_Inl)
next
  assume r: "TileSetMetadata_init ts = Inr reg"
  then have l: "init_loop [] (tiles ts) = Inr (tile_extras reg)"
    by (simp add: init_Inr)
  then have ok: "\<forall>u\<in>set (tiles ts). \<exists>k. tile_key u = Inr k"
    using init_loop_ok_iff [of "[]" "tiles ts"] by blast
  have ks: "fst ` set (tile_extras reg) = {k. \<exists>u\<in>set (tiles ts). tile_key u = Inr k}"
    using init_loop_keys [OF l] by simp
  show "\<forall>u\<in>set (tiles ts). \<exists>k. tile_key u = Inr k \<and> k \<in> set (TileSetMetadata_keys reg)"
  proof
    fix u assume u: "u \<in> set (tiles ts)"
    with ok obtain k where k: "tile_key u = Inr k" by blast
    with u ks have "k \<in> fst ` set (tile_extras reg)" by blast
    with k show "\<exists>k. tile_key u = Inr k \<and> k \<in> set (TileSetMetadata_keys reg)"
      by (auto simp: TileSetMetadata_keys_def dict_keys_def)
  qed
qed

theorem fail_fast_construction_witness:
  "TileSetMetadata_init
     \<lparr>tiles = [\<lparr>indices = [ROUND \<mapsto> 0, CH \<mapsto> 1], extras = 10\<rparr>,
               \<lparr>indices = [ROUND \<mapsto> 0], extras = 11\<rparr>],
      tileset_extras = 20\<rparr> = Inl (KeyError (EnumObj CH)) \<and>
   TileSetMetadata_init
     \<lparr>tiles = [\<lparr>indices = [ROUND \<mapsto> 0, CH \<mapsto> 1], extras = 10\<rparr>],
      tileset_extras = 20\<rparr> =
     Inr \<lparr>tile_extras = [(TileMetadataKey_init 0 1 0, 10)], priv_extras = 20\<rparr> \<and>
   TileMetadataKey_init 0 1 0 \<in>
     set (TileSetMetadata_keys \<lparr>tile_extras = [(TileMetadataKey_init 0 1 0, 10)], priv_extras = 20\<rparr>)"
  using fail_fast_construction [of "\<lparr>indices = [ROUND \<mapsto> 0], extras = 11\<rparr>"
      "\<lparr>tiles = [\<lparr>indices = [ROUND \<mapsto> 0, CH \<mapsto> 1], extras = 10\<rparr>,
               \<lparr>indices = [ROUND \<mapsto> 0], extras = 11\<rparr>], tileset_extras = 20\<rparr>"
      "\<lparr>tile_extras = [], priv_extras = 20\<rparr>"]
   fail_fast_construction [of "\<lparr>indices = [ROUND \<mapsto> 0], extras = 11\<rparr>"
      "\<lparr>tiles = [\<lparr>indices = [ROUND \<mapsto> 0, CH \<mapsto> 1], extras = 10\<rparr>], tileset_extras = 20\<rparr>"
      "\<lparr>tile_extras = [(TileMetadataKey_init 0 1 0, 10)], priv_extras = 20\<rparr>"]
  by (simp add: TileSetMetadata_init_def tile_key_def dict_setitem_def TileSetMetadata_keys_def
      dict_keys_def)

text \<open>
  Claim C4. In a registry built from a tile collection, looking up a key that no tile of
  the collection produced raises \<^verbatim>\<open>KeyError\<close> for that key. A lookup that returns a
  payload was made with a key object whose three fields are those of the key some tile
  of the collection produced.
\<close>

theorem lookup_failure:
  "TileSetMetadata_init ts = Inr reg \<longrightarrow>
     ((\<forall>t\<in>set (tiles ts). tile_key t \<noteq> Inr k) \<longrightarrow>
        TileSetMetadata_getitem bh reg (KeyObj k) = Inl (KeyError (KeyObj k))) \<and>
     (TileSetMetadata_getitem bh reg x = Inr v \<longrightarrow>
        (\<exists>t\<in>set (tiles ts). \<exists>k'. tile_key t = Inr k' \<and> x = KeyObj k' \<and>
           getattr_round x = Inr (priv_round k') \<and> getattr_ch x = Inr (priv_ch k') \<and>
           getattr_z x = Inr (priv_z k')))"
proof (intro impI conjI)
  assume r: "TileSetMetadata_init ts = Inr reg"
  then have l: "init_loop [] (tiles ts) = Inr (tile_extras reg)"
    by (simp add: init_Inr)
  {
    assume "\<forall>t\<in>set (tiles ts). tile_key t \<noteq> Inr k"
    with l have "map_of (tile_extras reg) k = map_of [] k"
      by (rule init_loop_map_of_other)
    then show "TileSetMetadata_getitem bh reg (KeyObj k) = Inl (KeyError (KeyObj k))"
      by (simp add: TileSetMetadata_getitem_def dict_getitem_key)
  }
  {
    assume g: "TileSetMetadata_getitem bh reg x = Inr v"
    have inst: "isinstance_TileMetadataKey x"
    proof (rule ccontr)
      assume "\<not> isinstance_TileMetadataKey x"
      then have "TileSetMetadata_getitem bh reg x =
          (if hashable x then Inl (KeyError x) else Inl TypeError)"
        by (simp add: TileSetMetadata_getitem_def dict_getitem_other)
      with g show False by (simp split: if_splits)
    qed
    then obtain k' where x: "x = KeyObj k'" by (cases x) auto
    with g have "map_of (tile_extras reg) k' = Some v"
      by (auto simp: TileSetMetadata_getitem_def dict_getitem_key split: option.splits)
    then have "k' \<in> fst ` set (tile_extras reg)"
      by (metis domI dom_map_of_conv_image_fst)
    then have "k' \<in> {k. \<exists>u\<in>set (tiles ts). tile_key u = Inr k}"
      using init_loop_keys [OF l] by simp
    then obtain t where "t \<in> set (tiles ts)" "tile_key t = Inr k'" by blast
    with x show "\<exists>t\<in>set (tiles ts). \<exists>k'. tile_key t = Inr k' \<and> x = KeyObj k' \<and>
           getattr_round x = Inr (priv_round k') \<and> getattr_ch x = Inr (priv_ch k') \<and>
           getattr_z x = Inr (priv_z k')"
      by (auto simp: key_round_def key_ch_def key_z_def)
  }
qed

theorem lookup_failure_witness:
  "TileSetMetadata_init
     \<lparr>tiles = [\<lparr>indices = [ROUND \<mapsto> 0, CH \<mapsto> 1, Z \<mapsto> 2], extras = 10\<rparr>],
      tileset_extras = 20\<rparr> =
     Inr \<lparr>tile_extras = [(TileMetadataKey_init 0 1 2, 10)], priv_extras = 20\<rparr> \<and>
   TileSetMetadata_getitem (\<lambda>x. 0)
     \<lparr>tile_extras = [(TileMetadataKey_init 0 1 2, 10)], priv_extras = 20\<rparr>
     (KeyObj (TileMetadataKey_init 0 1 3)) = Inl (KeyError (KeyObj (TileMetadataKey_init 0 1 3))) \<and>
   TileSetMetadata_getitem (\<lambda>x. 0)
     \<lparr>tile_extras = [(TileMetadataKey_init 0 1 2, 10)], priv_extras = 20\<rparr>
     (KeyObj (TileMetadataKey_init 0 1 2)) = Inr 10"
  using lookup_failure [of
      "\<lparr>tiles = [\<lparr>indices = [ROUND \<mapsto> 0, CH \<mapsto> 1, Z \<mapsto> 2], extras = 10\<rparr>],
        tileset_extras = 20\<rparr>"
      "\<lparr>tile_extras = [(TileMetadataKey_init 0 1 2, 10)], priv_extras = 20\<rparr>"
      "TileMetadataKey_init 0 1 3" "\<lambda>x. 0" "KeyObj (TileMetadataKey_init 0 1 2)" 10]
  by (simp add: TileSetMetadata_init_def tile_key_def dict_setitem_def
      TileSetMetadata_getitem_def dict_getitem_def py_hash_def key_eq_KeyObj
      TileMetadataKey_init_def key_hash_def)

text \<open>
  Claim C5. For a collection of N tiles that all carry a round and a channel and whose
  keys (round, channel, z, with z read as 0 where a tile omits it) are pairwise
  distinct, the constructor returns a registry with exactly N entries, and
  \<^verbatim>\<open>keys()\<close> holds exactly the N keys of the tiles, each once.
\<close>

theorem registry_completeness:
  assumes "\<forall>t\<in>set (tiles ts). indices t ROUND \<noteq> None \<and> indices t CH \<noteq> None"
    and "distinct (map tile_key (tiles ts))"
  shows "\<exists>reg. TileSetMetadata_init ts = Inr reg \<and>
           length (tile_extras reg) = length (tiles ts) \<and>
           length (TileSetMetadata_keys reg) = length (tiles ts) \<and>
           distinct (TileSetMetadata_keys reg) \<and>
           Inr ` set (TileSetMetadata_keys reg) = set (map tile_key (tiles ts))"
proof -
  from assms(1) have ok: "\<forall>t\<in>set (tiles ts). \<exists>k. tile_key t = Inr k"
    unfolding tile_key_ok_iff by auto
  then obtain d where d: "init_loop [] (tiles ts) = Inr d"
    using init_loop_ok_iff [of "[]" "tiles ts"] by blast
  define reg where "reg = \<lparr>tile_extras = d, priv_extras = tileset_extras ts\<rparr>"
  have r: "TileSetMetadata_init ts = Inr reg"
    by (simp add: TileSetMetadata_init_def d reg_def)
  have len: "length d = length (tiles ts)"
    using init_loop_length [OF d assms(2)] by simp
  have dist: "distinct (map fst d)"
    using init_loop_distinct [OF d] by simp
  have ks: "fst ` set d = {k. \<exists>u\<in>set (tiles ts). tile_key u = Inr k}"
    using init_loop_keys [OF d] by simp
  have img: "Inr ` fst ` set d = tile_key ` set (tiles ts)"
  proof (intro set_eqI iffI)
    fix y :: "py_error + TileMetadataKey"
    assume "y \<in> Inr ` fst ` set d"
    with ks show "y \<in> tile_key ` set (tiles ts)" by force
  next
    fix y :: "py_error + TileMetadataKey"
    assume "y \<in> tile_key ` set (tiles ts)"
    then obtain u where u: "u \<in> set (tiles ts)" "y = tile_key u" by blast
    with ok obtain k where "tile_key u = Inr k" by blast
    with u ks show "y \<in> Inr ` fst ` set d" by force
  qed
  show ?thesis
    using r len dist img
    by (intro exI [of _ reg]) (simp add: reg_def TileSetMetadata_keys_def dict_keys_def)
qed

theorem registry_completeness_witness:
  "TileSetMetadata_init
     \<lparr>tiles = [\<lparr>indices = [ROUND \<mapsto> 0, CH \<mapsto> 1, Z \<mapsto> 2], extras = 10\<rparr>,
               \<lparr>indices = [ROUND \<mapsto> 0, CH \<mapsto> 1], extras = 11\<rparr>],
      tileset_extras = 20\<rparr> =
     Inr \<lparr>tile_extras = [(TileMetadataKey_init 0 1 2, 10), (TileMetadataKey_init 0 1 0, 11)],
          priv_extras = 20\<rparr> \<and>
   TileSetMetadata_keys
     \<lparr>tile_extras = [(TileMetadataKey_init 0 1 2, 10), (TileMetadataKey_init 0 1 0, 11)],
      priv_extras = 20\<rparr> = [TileMetadataKey_init 0 1 2, TileMetadataKey_init 0 1 0] \<and>
   (\<exists>reg. TileSetMetadata_init
     \<lparr>tiles = [\<lparr>indices = [ROUND \<mapsto> 0, CH \<mapsto> 1, Z \<mapsto> 2], extras = 10\<rparr>,
               \<lparr>indices = [ROUND \<mapsto> 0, CH \<mapsto> 1], extras = 11\<rparr>],
      tileset_extras = 20\<rparr> = Inr reg \<and> length (tile_extras reg) = 2 \<and>
      length (TileSetMetadata_keys reg) = 2 \<and> distinct (TileSetMetadata_keys reg))"
  using registry_completeness [of
      "\<lparr>tiles = [\<lparr>indices = [ROUND \<mapsto> 0, CH \<mapsto> 1, Z \<mapsto> 2], extras = 10\<rparr>,
               \<lparr>indices = [ROUND \<mapsto> 0, CH \<mapsto> 1], extras = 11\<rparr>],
        tileset_extras = 20\<rparr>"]
  by (simp add: TileSetMetadata_init_def tile_key_def dict_setitem_def
      TileSetMetadata_keys_def dict_keys_def key_eq_KeyObj
      TileMetadataKey_init_def key_hash_def)

text \<open>
  Claim C6. A tile that carries a round \<open>r\<close> and a channel \<open>c\<close> and omits z is stored
  under the key (r, c, 0): right after the loop has handled the tile, the dictionary maps
  that key to the tile's payload; the finished registry lists the key, and returns the
  tile's payload for it unless a later tile of the collection has the same key.
\<close>

theorem default_z_registration:
  assumes "TileSetMetadata_init ts = Inr reg"
    and "tiles ts = pre @ t # post"
    and "indices t ROUND = Some r" and "indices t CH = Some c" and "indices t Z = None"
  shows "tile_key t = Inr (TileMetadataKey_init r c 0) \<and>
         (\<exists>d. init_loop [] (pre @ [t]) = Inr d \<and>
              dict_getitem bh d (KeyObj (TileMetadataKey_init r c 0)) = Inr (extras t)) \<and>
         TileMetadataKey_init r c 0 \<in> set (TileSetMetadata_keys reg) \<and>
         ((\<forall>u\<in>set post. tile_key u \<noteq> Inr (TileMetadataKey_init r c 0)) \<longrightarrow>
            TileSetMetadata_getitem bh reg (KeyObj (TileMetadataKey_init r c 0)) = Inr (extras t))"
proof -
  let ?k = "TileMetadataKey_init r c 0"
  have k: "tile_key t = Inr ?k"
    using assms(3-5) by (simp add: tile_key_def)
  have l: "init_loop [] (pre @ t # post) = Inr (tile_extras reg)"
    using assms(1,2) by (simp add: init_Inr)
  then obtain d0 where d0: "init_loop [] pre = Inr d0"
    and rest: "init_loop d0 (t # post) = Inr (tile_extras reg)"
    by (auto simp: init_loop_append split: sum.splits)
  have pt: "init_loop [] (pre @ [t]) = Inr (AList.update ?k (extras t) d0)"
    using d0 k by (simp add: init_loop_append init_loop_step del: init_loop.simps(2))
  have g1: "dict_getitem bh (AList.update ?k (extras t) d0) (KeyObj ?k) = Inr (extras t)"
    by (simp add: dict_getitem_key update_conv')
  have "?k \<in> {k. \<exists>u\<in>set (pre @ t # post). tile_key u = Inr k}"
    using k by auto
  then have mem: "?k \<in> set (TileSetMetadata_keys reg)"
    using init_loop_keys [OF l] by (simp add: TileSetMetadata_keys_def dict_keys_def)
  have fin: "(\<forall>u\<in>set post. tile_key u \<noteq> Inr ?k) \<longrightarrow>
      TileSetMetadata_getitem bh reg (KeyObj ?k) = Inr (extras t)"
  proof
    assume "\<forall>u\<in>set post. tile_key u \<noteq> Inr ?k"
    with l k have "map_of (tile_extras reg) ?k = Some (extras t)"
      by (rule init_loop_last_write)
    then show "TileSetMetadata_getitem bh reg (KeyObj ?k) = Inr (extras t)"
      by (simp add: TileSetMetadata_getitem_def dict_getitem_key)
  qed
  from k pt g1 mem fin show ?thesis by blast
qed

theorem default_z_registration_witness:
  "TileSetMetadata_init
     \<lparr>tiles = [\<lparr>indices = [ROUND \<mapsto> 3, CH \<mapsto> 1, Z \<mapsto> 2], extras = 10\<rparr>,
               \<lparr>indices = [ROUND \<mapsto> 3, CH \<mapsto> 1], extras = 11\<rparr>],
      tileset_extras = 20\<rparr> =
     Inr \<lparr>tile_extras = [(TileMetadataKey_init 3 1 2, 10), (TileMetadataKey_init 3 1 0, 11)],
          priv_extras = 20\<rparr> \<and>
   tile_key \<lparr>indices = [ROUND \<mapsto> 3, CH \<mapsto> 1], extras = 11\<rparr> = Inr (TileMetadataKey_init 3 1 0) \<and>
   TileSetMetadata_getitem (\<lambda>x. 0)
     \<lparr>tile_extras = [(TileMetadataKey_init 3 1 2, 10), (TileMetadataKey_init 3 1 0, 11)],
      priv_extras = 20\<rparr> (KeyObj (TileMetadataKey_init 3 1 0)) = Inr 11"
  using default_z_registration [of
      "\<lparr>tiles = [\<lparr>indices = [ROUND \<mapsto> 3, CH \<mapsto> 1, Z \<mapsto> 2], extras = 10\<rparr>,
               \<lparr>indices = [ROUND \<mapsto> 3, CH \<mapsto> 1], extras = 11\<rparr>],
        tileset_extras = 20\<rparr>"
      "\<lparr>tile_extras = [(TileMetadataKey_init 3 1 2, 10), (TileMetadataKey_init 3 1 0, 11)],
          priv_extras = 20\<rparr>"
      "[\<lparr>indices = [ROUND \<mapsto> 3, CH \<mapsto> 1, Z \<mapsto> 2], extras = 10\<rparr>]"
      "\<lparr>indices = [ROUND \<mapsto> 3, CH \<mapsto> 1], extras = 11\<rparr>" "[]" 3 1 "\<lambda>x. 0"]
  by (simp add: TileSetMetadata_init_def tile_key_def dict_setitem_def
      TileSetMetadata_getitem_def dict_getitem_def py_hash_def key_eq_KeyObj
      TileMetadataKey_init_def key_hash_def)

text \<open>
  Claim C7. When two tiles of the collection produce the same key, the constructor does
  not raise on that account: whenever it fails, the error is that of a tile missing its
  round or channel, and when every tile carries both it returns a registry. In that
  registry the entry of the shared key holds the payload of the later tile (the last
  tile of the collection with that key).
\<close>

theorem last_write_wins:
  assumes "tiles ts = pre @ t1 # mid @ t2 # post"
    and "tile_key t1 = Inr k" and "tile_key t2 = Inr k"
    and "\<forall>u\<in>set post. tile_key u \<noteq> Inr k"
  shows "(\<forall>e. TileSetMetadata_init ts = Inl e \<longrightarrow> (\<exists>u\<in>set (tiles ts). tile_key u = Inl e)) \<and>
         ((\<forall>u\<in>set (tiles ts). indices u ROUND \<noteq> None \<and> indices u CH \<noteq> None) \<longrightarrow>
            (\<exists>reg. TileSetMetadata_init ts = Inr reg)) \<and>
         (\<forall>reg. TileSetMetadata_init ts = Inr reg \<longrightarrow>
            TileSetMetadata_getitem bh reg (KeyObj k) = Inr (extras t2))"
proof (intro conjI allI impI)
  fix e assume "TileSetMetadata_init ts = Inl e"
  then show "\<exists>u\<in>set (tiles ts). tile_key u = Inl e"
    by (simp add: init_Inl init_loop_error)
next
  assume "\<forall>u\<in>set (tiles ts). indices u ROUND \<noteq> None \<and> indices u CH \<noteq> None"
  then have "\<forall>u\<in>set (tiles ts). \<exists>k. tile_key u = Inr k"
    unfolding tile_key_ok_iff by auto
  then obtain d where "init_loop [] (tiles ts) = Inr d"
    using init_loop_ok_iff [of "[]" "tiles ts"] by blast
  then show "\<exists>reg. TileSetMetadata_init ts = Inr reg"
    by (simp add: TileSetMetadata_init_def)
next
  fix reg assume "TileSetMetadata_init ts = Inr reg"
  then have "init_loop [] ((pre @ t1 # mid) @ t2 # post) = Inr (tile_extras reg)"
    using assms(1) by (simp add: init_Inr)
  then have "map_of (tile_extras reg) k = Some (extras t2)"
    using assms(3,4) by (rule init_loop_last_write)
  then show "TileSetMetadata_getitem bh reg (KeyObj k) = Inr (extras t2)"
    by (simp add: TileSetMetadata_getitem_def dict_getitem_key)
qed

theorem last_write_wins_witness:
  "TileSetMetadata_init
     \<lparr>tiles = [\<lparr>indices = [ROUND \<mapsto> 3, CH \<mapsto> 1, Z \<mapsto> 0], extras = 10\<rparr>,
               \<lparr>indices = [ROUND \<mapsto> 4, CH \<mapsto> 1, Z \<mapsto> 0], extras = 12\<rparr>,
               \<lparr>indices = [ROUND \<mapsto> 3, CH \<mapsto> 1], extras = 11\<rparr>],
      tileset_extras = 20\<rparr> =
     Inr \<lparr>tile_extras = [(TileMetadataKey_init 3 1 0, 11), (TileMetadataKey_init 4 1 0, 12)],
          priv_extras = 20\<rparr> \<and>
   TileSetMetadata_getitem (\<lambda>x. 0)
     \<lparr>tile_extras = [(TileMetadataKey_init 3 1 0, 11), (TileMetadataKey_init 4 1 0, 12)],
      priv_extras = 20\<rparr> (KeyObj (TileMetadataKey_init 3 1 0)) = Inr 11"
  using last_write_wins [of
      "\<lparr>tiles = [\<lparr>indices = [ROUND \<mapsto> 3, CH \<mapsto> 1, Z \<mapsto> 0], extras = 10\<rparr>,
               \<lparr>indices = [ROUND \<mapsto> 4, CH \<mapsto> 1, Z \<mapsto> 0], extras = 12\<rparr>,
               \<lparr>indices = [ROUND \<mapsto> 3, CH \<mapsto> 1], extras = 11\<rparr>],
        tileset_extras = 20\<rparr>"
      "[]" "\<lparr>indices = [ROUND \<mapsto> 3, CH \<mapsto> 1, Z \<mapsto> 0], extras = 10\<rparr>"
      "[\<lparr>indices = [ROUND \<mapsto> 4, CH \<mapsto> 1, Z \<mapsto> 0], extras = 12\<rparr>]"
      "\<lparr>indices = [ROUND \<mapsto> 3, CH \<mapsto> 1], extras = 11\<rparr>" "[]"
      "TileMetadataKey_init 3 1 0" "\<lambda>x. 0"]
  by (simp add: TileSetMetadata_init_def tile_key_def dict_setitem_def
      TileSetMetadata_getitem_def dict_getitem_def py_hash_def key_eq_KeyObj
      TileMetadataKey_init_def key_hash_def)

text \<open>
  Claim C8. The property \<^verbatim>\<open>extras\<close> of a constructed registry returns the reference
  the collection exposed as its \<^verbatim>\<open>extras\<close>: the same object, not a copy, so that in
  any heap both references read the same payload, also after a write through the
  collection's reference.
\<close>

theorem collection_metadata_passthrough:
  assumes "TileSetMetadata_init ts = Inr reg"
  shows "TileSetMetadata_extras reg = tileset_extras ts \<and>
         heap (TileSetMetadata_extras reg) = heap (tileset_extras ts) \<and>
         (heap(tileset_extras ts \<mapsto> p)) (TileSetMetadata_extras reg) = Some p"
  using assms by (simp add: init_Inr TileSetMetadata_extras_def)

theorem collection_metadata_passthrough_witness:
  "TileSetMetadata_init
     \<lparr>tiles = [\<lparr>indices = [ROUND \<mapsto> 3, CH \<mapsto> 1, Z \<mapsto> 0], extras = 10\<rparr>],
      tileset_extras = 20\<rparr> =
     Inr \<lparr>tile_extras = [(TileMetadataKey_init 3 1 0, 10)], priv_extras = 20\<rparr> \<and>
   TileSetMetadata_extras
     \<lparr>tile_extras = [(TileMetadataKey_init 3 1 0, 10)], priv_extras = 20\<rparr> = 20 \<and>
   ([20 \<mapsto> ''a'', 20 \<mapsto> ''b''] :: nat \<rightharpoonup> string)
     (TileSetMetadata_extras
        \<lparr>tile_extras = [(TileMetadataKey_init 3 1 0, 10)], priv_extras = 20\<rparr>) = Some ''b''"
  using collection_metadata_passthrough [of
      "\<lparr>tiles = [\<lparr>indices = [ROUND \<mapsto> 3, CH \<mapsto> 1, Z \<mapsto> 0], extras = 10\<rparr>],
        tileset_extras = 20\<rparr>"
      "\<lparr>tile_extras = [(TileMetadataKey_init 3 1 0, 10)], priv_extras = 20\<rparr>"
      "[20 \<mapsto> ''a'']" "''b''"]
  by (simp add: TileSetMetadata_init_def tile_key_def dict_setitem_def
      TileSetMetadata_extras_def)

text \<open>
  Claim C10, as stated: a lookup with any object that is not a key instance raises
  \<^verbatim>\<open>KeyError\<close>. It fails for an unhashable object: in the registry of one tile of key
  (1, 0, 0), the lookup of the list [1, 0, 0] raises \<^verbatim>\<open>TypeError\<close>, since the dictionary
  hashes the object before it compares any key.
\<close>

theorem lookup_non_key_counterexample:
  "TileSetMetadata_init
     \<lparr>tiles = [\<lparr>indices = [ROUND \<mapsto> 1, CH \<mapsto> 0, Z \<mapsto> 0], extras = 10\<rparr>],
      tileset_extras = 20\<rparr> =
     Inr \<lparr>tile_extras = [(TileMetadataKey_init 1 0 0, 10)], priv_extras = 20\<rparr> \<and>
   \<not> isinstance_TileMetadataKey (ListObj [IntObj 1, IntObj 0, IntObj 0]) \<and>
   TileSetMetadata_getitem (\<lambda>x. 0)
     \<lparr>tile_extras = [(TileMetadataKey_init 1 0 0, 10)], priv_extras = 20\<rparr>
     (ListObj [IntObj 1, IntObj 0, IntObj 0]) = Inl TypeError \<and>
   TileSetMetadata_getitem (\<lambda>x. 0)
     \<lparr>tile_extras = [(TileMetadataKey_init 1 0 0, 10)], priv_extras = 20\<rparr>
     (ListObj [IntObj 1, IntObj 0, IntObj 0]) \<noteq> Inl (KeyError (ListObj [IntObj 1, IntObj 0, IntObj 0]))"
  by (simp add: TileSetMetadata_init_def tile_key_def dict_setitem_def
      TileSetMetadata_getitem_def dict_getitem_def py_hash_def)

text \<open>
  Claim C10, amended. In every registry, a lookup with a hashable object that is not a
  key instance (the tuple (r, c, z), say) raises \<^verbatim>\<open>KeyError\<close> for that object, also when
  a key with the same field values is registered, since \<^verbatim>\<open>__eq__\<close> of a stored key
  rejects it; a lookup with an unhashable object that is not a key instance (a list)
  raises \<^verbatim>\<open>TypeError\<close>. No such lookup returns a payload.
\<close>

theorem lookup_non_key:
  assumes "\<not> isinstance_TileMetadataKey x"
  shows "(hashable x \<longrightarrow> TileSetMetadata_getitem bh reg x = Inl (KeyError x)) \<and>
         (\<not> hashable x \<longrightarrow> TileSetMetadata_getitem bh reg x = Inl TypeError) \<and>
         (\<forall>v. TileSetMetadata_getitem bh reg x \<noteq> Inr v)"
  using assms by (simp add: TileSetMetadata_getitem_def dict_getitem_other)

theorem lookup_non_key_witness:
  "TileSetMetadata_getitem (\<lambda>x. 1)
     \<lparr>tile_extras = [(TileMetadataKey_init 1 0 0, 10)], priv_extras = 20\<rparr>
     (TupleObj [IntObj 1, IntObj 0, IntObj 0]) = Inl (KeyError (TupleObj [IntObj 1, IntObj 0, IntObj 0])) \<and>
   key_hash (TileMetadataKey_init 1 0 0) = 1 \<and>
   TileSetMetadata_getitem (\<lambda>x. 1)
     \<lparr>tile_extras = [(TileMetadataKey_init 1 0 0, 10)], priv_extras = 20\<rparr>
     (KeyObj (TileMetadataKey_init 1 0 0)) = Inr 10 \<and>
   TileSetMetadata_getitem (\<lambda>x. 1)
     \<lparr>tile_extras = [(TileMetadataKey_init 1 0 0, 10)], priv_extras = 20\<rparr>
     (TupleObj [ListObj []]) = Inl TypeError"
  using lookup_non_key [of "TupleObj [IntObj 1, IntObj 0, IntObj 0]" "\<lambda>x. 1"
      "\<lparr>tile_extras = [(TileMetadataKey_init 1 0 0, 10)], priv_extras = 20\<rparr>"]
    lookup_non_key [of "TupleObj [ListObj []]" "\<lambda>x. 1"
      "\<lparr>tile_extras = [(TileMetadataKey_init 1 0 0, 10)], priv_extras = 20\<rparr>"]
  by (simp add: TileSetMetadata_getitem_def dict_getitem_def py_hash_def key_eq_KeyObj
      TileMetadataKey_init_def key_hash_def)

section \<open>Claim about persistence\<close>

lemma load_save:
  assumes "writable fs path" and "length (ds_values d) = prod_list (ds_shape d)"
  shows "\<exists>fs'. save fs d path = Inr fs' \<and> load fs' path = Inr d"
  using assms by (simp add: save_def load_def)

text \<open>
  Claim C1. For a dataset of shape (1, 5, 2, 2, 5) whose array holds 100 zeros, saving it
  to a writable path succeeds, loading from that path in the resulting file system
  succeeds, and the loaded dataset is equivalent to the saved one: same shape, element
  type, values, coordinate label arrays and attributes.
\<close>

theorem round_trip_zeros:
  assumes "ds_shape d = [1, 5, 2, 2, 5]" and "ds_values d = replicate 100 0"
    and "writable fs path"
  shows "\<exists>fs' d'. save fs d path = Inr fs' \<and> load fs' path = Inr d' \<and> equals d d'"
proof -
  have "length (ds_values d) = prod_list (ds_shape d)"
    using assms(1,2) by simp
  with assms(3) obtain fs' where "save fs d path = Inr fs'" "load fs' path = Inr d"
    using load_save by blast
  moreover have "equals d d" by (simp add: equals_def)
  ultimately show ?thesis by blast
qed

theorem round_trip_zeros_witness:
  "(\<exists>fs' d'.
      save \<lparr>files = Map.empty, writable = (\<lambda>p. p = ''test.nc'')\<rparr>
        \<lparr>ds_dims = [''r'', ''c'', ''z'', ''y'', ''x''], ds_shape = [1, 5, 2, 2, 5],
         ds_dtype = Float32, ds_values = replicate 100 0, ds_coords = [], ds_attrs = []\<rparr>
        ''test.nc'' = Inr fs' \<and>
      load fs' ''test.nc'' = Inr d' \<and>
      equals \<lparr>ds_dims = [''r'', ''c'', ''z'', ''y'', ''x''], ds_shape = [1, 5, 2, 2, 5],
         ds_dtype = Float32, ds_values = replicate 100 0, ds_coords = [], ds_attrs = []\<rparr> d') \<and>
   load \<lparr>files = Map.empty, writable = (\<lambda>p. p = ''test.nc'')\<rparr> ''test.nc'' = Inl NotFound \<and>
   save \<lparr>files = Map.empty, writable = (\<lambda>p. p = ''test.nc'')\<rparr>
        \<lparr>ds_dims = [''r'', ''c'', ''z'', ''y'', ''x''], ds_shape = [1, 5, 2, 2, 5],
         ds_dtype = Float32, ds_values = replicate 100 0, ds_coords = [], ds_attrs = []\<rparr>
        ''other.nc'' = Inl IOFailure"
  using round_trip_zeros [of
      "\<lparr>ds_dims = [''r'', ''c'', ''z'', ''y'', ''x''], ds_shape = [1, 5, 2, 2, 5],
         ds_dtype = Float32, ds_values = replicate 100 0, ds_coords = [], ds_attrs = []\<rparr>"
      "\<lparr>files = Map.empty, writable = (\<lambda>p. p = ''test.nc'')\<rparr>" "''test.nc''"]
  by (simp add: save_def load_def)

end
